theory Spec2Isabelle
  imports Main "HOL-Library.Word"
begin

unbundle bit_operations_syntax

section \<open>The RustyDB WebSocket client of \<open>examples/websocket_client.py\<close>\<close>

text \<open>
  The theory embeds the class \<open>RustyDBWebSocketClient\<close> and the two example
  routines with loops (\<open>example_7_reconnection\<close>, \<open>example_8_streaming_results\<close>).
  The client is a record of its attributes; every method takes the client and the
  world and returns its outcome together with the client and the world after the call.
  The world is everything outside the client: the servers that answer
  \<open>websockets.connect\<close>, the frames the current connection will deliver, the
  system's random bytes and clock, and a log of the transport calls made so far.
  Output printed to the terminal is not modelled.
\<close>

subsection \<open>JSON values and the Python operations the client applies to them\<close>

datatype json =
    JNull
  | JBool bool
  | JInt int
  | JStr string
  | JArr "json list"
  | JObj "(string \<times> json) list"

datatype error =
    RuntimeError string
  | TypeError
  | KeyError string
  | AttributeError
  | ConnectionClosed
  | OSError
  | TimeoutError

text \<open>
  A call returns, raises, or never returns (a \<open>recv\<close> without timeout on a
  connection that stays silent).
\<close>

datatype 'a outcome = Return 'a | Raise error | Diverge

text \<open>
  Numbers are integers: the client reads a number only for its truth value.
  A dict is the list of its items; a lookup takes the first item with the key.
\<close>

text \<open>Python's truth value of a decoded JSON value (\<open>if x\<close>, \<open>x and y\<close>, \<open>not x\<close>).\<close>

fun truthy :: "json \<Rightarrow> bool" where
  "truthy JNull = False"
| "truthy (JBool b) = b"
| "truthy (JInt n) = (n \<noteq> 0)"
| "truthy (JStr s) = (s \<noteq> [])"
| "truthy (JArr xs) = (xs \<noteq> [])"
| "truthy (JObj kvs) = (kvs \<noteq> [])"

text \<open>
  \<open>x[key]\<close> with a string key: a dict looks the key up and raises \<open>KeyError\<close>
  when it is missing; a list or a string wants an integer index, and \<open>None\<close>,
  a bool or a number has no subscript: all \<open>TypeError\<close>.
\<close>

fun getitem :: "json \<Rightarrow> string \<Rightarrow> error + json" where
  "getitem (JObj kvs) k = (case map_of kvs k of None \<Rightarrow> Inl (KeyError k) | Some v \<Rightarrow> Inr v)"
| "getitem _ k = Inl TypeError"



text \<open>
  \<open>response and response["type"] == t\<close>, as \<open>authenticate\<close> and the examples
  test a reply: a missing reply and an empty container are false before the subscript
  is evaluated.
\<close>

definition reply_and_type_is :: "json option \<Rightarrow> string \<Rightarrow> error + bool" where
  "reply_and_type_is response t =
     (case response of
        None \<Rightarrow> Inr False
      | Some j \<Rightarrow>
          if \<not> truthy j then Inr False
          else (case getitem j ''type'' of Inl e \<Rightarrow> Inl e | Inr v \<Rightarrow> Inr (v = JStr t)))"

text \<open>
  \<open>response is not None and response["type"] == t\<close>, as \<open>ping\<close> tests its reply:
  only a missing reply skips the subscript.
\<close>

definition reply_not_none_and_type_is :: "json option \<Rightarrow> string \<Rightarrow> error + bool" where
  "reply_not_none_and_type_is response t =
     (case response of
        None \<Rightarrow> Inr False
      | Some j \<Rightarrow> (case getitem j ''type'' of Inl e \<Rightarrow> Inl e | Inr v \<Rightarrow> Inr (v = JStr t)))"

subsection \<open>Identifiers: \<open>str(uuid.uuid4())\<close>\<close>

text \<open>
  \<open>uuid.uuid4()\<close> takes 16 random bytes and overwrites the variant and version
  bits; \<open>str\<close> prints the 128 bits as 32 lower-case hexadecimal digits in groups
  of 8, 4, 4, 4 and 12, joined by hyphens.
\<close>

definition uuid4 :: "128 word \<Rightarrow> 128 word" where
  "uuid4 r =
     (((r AND NOT (push_bit 48 0xc000)) OR push_bit 48 0x8000)
        AND NOT (push_bit 64 0xf000)) OR push_bit 76 4"

definition hex_digit :: "nat \<Rightarrow> char" where
  "hex_digit n = ''0123456789abcdef'' ! (n mod 16)"

definition hex32 :: "128 word \<Rightarrow> string" where
  "hex32 u = map (\<lambda>i. hex_digit (unat (drop_bit (4 * (31 - i)) u AND 0xf))) [0..<32]"

definition uuid_str :: "128 word \<Rightarrow> string" where
  "uuid_str u =
     (let h = hex32 u in
        take 8 h @ ''-'' @ take 4 (drop 8 h) @ ''-'' @ take 4 (drop 12 h) @ ''-'' @
        take 4 (drop 16 h) @ ''-'' @ drop 20 h)"

subsection \<open>The client and the world\<close>

record client =
  url :: string
  auth_token :: "string option"
  auto_reconnect :: bool
  max_reconnect_attempts :: int
  websocket :: "nat option"
  reconnect_count :: int
  authenticated :: bool

text \<open>\<open>__init__\<close>, with its defaults written out by the caller.\<close>

definition new_client :: "string \<Rightarrow> string option \<Rightarrow> bool \<Rightarrow> int \<Rightarrow> client" where
  "new_client u tok ar mx =
     \<lparr>url = u, auth_token = tok, auto_reconnect = ar, max_reconnect_attempts = mx,
      websocket = None, reconnect_count = 0, authenticated = False\<rparr>"

definition default_url :: string where
  "default_url = ''ws://localhost:8080/api/v1/stream''"

text \<open>\<open>if self.auth_token\<close>: \<open>None\<close> and the empty string are false.\<close>

definition has_token :: "client \<Rightarrow> bool" where
  "has_token c = (case auth_token c of None \<Rightarrow> False | Some t \<Rightarrow> t \<noteq> [])"

definition token_text :: "client \<Rightarrow> string" where
  "token_text c = (case auth_token c of None \<Rightarrow> [] | Some t \<Rightarrow> t)"

text \<open>
  What a connection will deliver, in order: a text frame that arrives so many
  time-units after the one before it (or after now, for the first), or the end of the
  connection, from which on \<open>recv\<close> and \<open>send\<close> raise \<open>ConnectionClosed\<close>.
  An empty list is a connection that stays open and silent. Time is counted in
  whole time-units: the timeouts (5.0, 10.0) and delays (1.0, 2.0, ...) of the source
  are whole numbers.
\<close>

datatype arrival = Frame nat string | Hangup

text \<open>A server accepts a connection, which then delivers its script, or the attempt raises.\<close>

datatype dial = Accept "arrival list" | Refuse error

text \<open>
  The transport calls and waits of the program, newest first in the log. A dial is
  logged with whether it was accepted.
\<close>

datatype io_event =
    Dialed string bool
  | Sent nat json
  | Received nat string
  | Waited nat
  | Slept nat
  | Closed nat

record world =
  dials :: "dial list"
  inbox :: "arrival list"
  now_iso :: string
  entropy :: "nat \<Rightarrow> 128 word"
  drawn :: nat
  opened :: nat
  trace :: "io_event list"

text \<open>Time passes: the next frame is so much nearer.\<close>

fun elapse :: "nat \<Rightarrow> arrival list \<Rightarrow> arrival list" where
  "elapse t (Frame d s # rest) = Frame (d - t) s # rest"
| "elapse t script = script"

text \<open>
  \<open>websockets.connect(url)\<close>: the next server of the world answers; with no server
  left the attempt is refused. A new connection gets the next handle and brings its
  own inbound script.
\<close>

definition ws_connect :: "string \<Rightarrow> world \<Rightarrow> (error + nat) \<times> world" where
  "ws_connect u w =
     (case dials w of
        [] \<Rightarrow> (Inl OSError, w\<lparr>trace := Dialed u False # trace w\<rparr>)
      | Refuse e # ds \<Rightarrow> (Inl e, w\<lparr>dials := ds, trace := Dialed u False # trace w\<rparr>)
      | Accept script # ds \<Rightarrow>
          (Inr (opened w),
           w\<lparr>dials := ds, inbox := script, opened := Suc (opened w),
             trace := Dialed u True # trace w\<rparr>))"

text \<open>\<open>websocket.send(text)\<close>; the log keeps the value whose \<open>json.dumps\<close> was sent.\<close>

definition ws_send :: "nat \<Rightarrow> json \<Rightarrow> world \<Rightarrow> unit outcome \<times> world" where
  "ws_send h m w =
     (case inbox w of
        Hangup # rest \<Rightarrow> (Raise ConnectionClosed, w)
      | _ \<Rightarrow> (Return (), w\<lparr>trace := Sent h m # trace w\<rparr>))"

text \<open>\<open>await websocket.recv()\<close>, with no limit on the wait.\<close>

definition ws_recv :: "nat \<Rightarrow> world \<Rightarrow> string outcome \<times> world" where
  "ws_recv h w =
     (case inbox w of
        [] \<Rightarrow> (Diverge, w)
      | Hangup # rest \<Rightarrow> (Raise ConnectionClosed, w)
      | Frame d s # rest \<Rightarrow> (Return s, w\<lparr>inbox := rest, trace := Received h s # trace w\<rparr>))"

text \<open>
  \<open>await asyncio.wait_for(websocket.recv(), timeout=t)\<close>: a frame that arrives
  before \<open>t\<close> time-units have passed is returned; otherwise the wait is cancelled
  with \<open>TimeoutError\<close> and the frame stays on its way.
\<close>

definition ws_recv_within :: "nat \<Rightarrow> nat \<Rightarrow> world \<Rightarrow> string outcome \<times> world" where
  "ws_recv_within t h w =
     (case inbox w of
        [] \<Rightarrow> (Raise TimeoutError, w\<lparr>trace := Waited t # trace w\<rparr>)
      | Hangup # rest \<Rightarrow> (Raise ConnectionClosed, w)
      | Frame d s # rest \<Rightarrow>
          if d < t then (Return s, w\<lparr>inbox := rest, trace := Received h s # trace w\<rparr>)
          else (Raise TimeoutError,
                w\<lparr>inbox := Frame (d - t) s # rest, trace := Waited t # trace w\<rparr>))"

text \<open>\<open>websocket.close()\<close> and \<open>asyncio.sleep(d)\<close>.\<close>

definition ws_close :: "nat \<Rightarrow> world \<Rightarrow> world" where
  "ws_close h w = w\<lparr>trace := Closed h # trace w\<rparr>"

definition sleep :: "nat \<Rightarrow> world \<Rightarrow> world" where
  "sleep d w = w\<lparr>inbox := elapse d (inbox w), trace := Slept d # trace w\<rparr>"

text \<open>\<open>str(uuid.uuid4())\<close> draws the next 16 random bytes of the world.\<close>

definition fresh_id :: "world \<Rightarrow> string \<times> world" where
  "fresh_id w = (uuid_str (uuid4 (entropy w (drawn w))), w\<lparr>drawn := Suc (drawn w)\<rparr>)"

subsection \<open>The messages the client builds\<close>

definition auth_message :: "string \<Rightarrow> string \<Rightarrow> string \<Rightarrow> json" where
  "auth_message tok ts uid =
     JObj [(''type'', JStr ''auth''),
           (''payload'', JObj [(''token'', JStr tok)]),
           (''timestamp'', JStr ts),
           (''id'', JStr uid)]"

text \<open>\<open>params or []\<close>: \<open>None\<close> and the empty list both give the empty list.\<close>

definition params_or_empty :: "json list option \<Rightarrow> json list" where
  "params_or_empty params = (case params of None \<Rightarrow> [] | Some ps \<Rightarrow> ps)"

definition query_message :: "string \<Rightarrow> json list option \<Rightarrow> bool \<Rightarrow> string \<Rightarrow> string \<Rightarrow> json" where
  "query_message sql params streaming ts uid =
     JObj [(''type'', JStr ''query''),
           (''payload'', JObj [(''sql'', JStr sql),
                             (''params'', JArr (params_or_empty params)),
                             (''streaming'', JBool streaming)]),
           (''timestamp'', JStr ts),
           (''id'', JStr uid)]"

definition ping_message :: "string \<Rightarrow> json" where
  "ping_message ts =
     JObj [(''type'', JStr ''ping''),
           (''payload'', JObj []),
           (''timestamp'', JStr ts)]"


subsection \<open>The methods of the client\<close>

text \<open>
  \<open>json.loads\<close> is the library's decoder and is a parameter \<open>L\<close> of every method
  that receives: \<open>L text = None\<close> where it raises \<open>JSONDecodeError\<close>.
\<close>

definition send_message :: "client \<Rightarrow> json \<Rightarrow> world \<Rightarrow> unit outcome \<times> client \<times> world" where
  "send_message c m w =
     (case websocket c of
        None \<Rightarrow> (Raise (RuntimeError ''Not connected to server''), c, w)
      | Some h \<Rightarrow> (case ws_send h m w of (r, w') \<Rightarrow> (r, c, w')))"

definition receive_message ::
  "(string \<Rightarrow> json option) \<Rightarrow> nat option \<Rightarrow> client \<Rightarrow> world
     \<Rightarrow> json option outcome \<times> client \<times> world" where
  "receive_message L timeout c w =
     (case websocket c of
        None \<Rightarrow> (Raise (RuntimeError ''Not connected to server''), c, w)
      | Some h \<Rightarrow>
          (case (case timeout of
                   None \<Rightarrow> ws_recv h w
                 | Some t \<Rightarrow> if t \<noteq> 0 then ws_recv_within t h w else ws_recv h w) of
             (Return message_text, w') \<Rightarrow> (Return (L message_text), c, w')
           | (Raise TimeoutError, w') \<Rightarrow> (Return None, c, w')
           | (Raise e, w') \<Rightarrow> (Raise e, c, w')
           | (Diverge, w') \<Rightarrow> (Diverge, c, w')))"

definition authenticate ::
  "(string \<Rightarrow> json option) \<Rightarrow> client \<Rightarrow> world \<Rightarrow> bool outcome \<times> client \<times> world" where
  "authenticate L c w =
     (if \<not> has_token c then (Return False, c, w)
      else
        (case fresh_id w of (uid, w0) \<Rightarrow>
         (case send_message c (auth_message (token_text c) (now_iso w0) uid) w0 of
            (Raise e, c1, w1) \<Rightarrow> (Raise e, c1, w1)
          | (Diverge, c1, w1) \<Rightarrow> (Diverge, c1, w1)
          | (Return u, c1, w1) \<Rightarrow>
              (case receive_message L (Some 5) c1 w1 of
                 (Raise e, c2, w2) \<Rightarrow> (Raise e, c2, w2)
               | (Diverge, c2, w2) \<Rightarrow> (Diverge, c2, w2)
               | (Return response, c2, w2) \<Rightarrow>
                   (case reply_and_type_is response ''auth_success'' of
                      Inl e \<Rightarrow> (Raise e, c2, w2)
                    | Inr True \<Rightarrow> (Return True, c2\<lparr>authenticated := True\<rparr>, w2)
                    | Inr False \<Rightarrow>
                        (case reply_and_type_is response ''auth_error'' of
                           Inl e \<Rightarrow> (Raise e, c2, w2)
                         | Inr True \<Rightarrow> (Return False, c2\<lparr>authenticated := False\<rparr>, w2)
                         | Inr False \<Rightarrow> (Return False, c2, w2)))))))"

text \<open>
  \<open>connect\<close>: the handle is stored before the handshake of \<open>authenticate\<close>, whose
  result is not looked at; an exception of either is printed and raised again.
\<close>

definition connect ::
  "(string \<Rightarrow> json option) \<Rightarrow> client \<Rightarrow> world \<Rightarrow> unit outcome \<times> client \<times> world" where
  "connect L c w =
     (case ws_connect (url c) w of
        (Inl e, w1) \<Rightarrow> (Raise e, c, w1)
      | (Inr h, w1) \<Rightarrow>
          (let c1 = c\<lparr>websocket := Some h\<rparr> in
           if has_token c1 then
             (case authenticate L c1 w1 of
                (Raise e, c2, w2) \<Rightarrow> (Raise e, c2, w2)
              | (Diverge, c2, w2) \<Rightarrow> (Diverge, c2, w2)
              | (Return b, c2, w2) \<Rightarrow> (Return (), c2\<lparr>reconnect_count := 0\<rparr>, w2))
           else (Return (), c1\<lparr>reconnect_count := 0\<rparr>, w1)))"

definition execute_query ::
  "(string \<Rightarrow> json option) \<Rightarrow> string \<Rightarrow> json list option \<Rightarrow> bool \<Rightarrow> client \<Rightarrow> world
     \<Rightarrow> json option outcome \<times> client \<times> world" where
  "execute_query L sql params streaming c w =
     (case fresh_id w of (uid, w0) \<Rightarrow>
      (case send_message c (query_message sql params streaming (now_iso w0) uid) w0 of
         (Raise e, c1, w1) \<Rightarrow> (Raise e, c1, w1)
       | (Diverge, c1, w1) \<Rightarrow> (Diverge, c1, w1)
       | (Return u, c1, w1) \<Rightarrow> receive_message L (Some 5) c1 w1))"

definition ping ::
  "(string \<Rightarrow> json option) \<Rightarrow> client \<Rightarrow> world \<Rightarrow> bool outcome \<times> client \<times> world" where
  "ping L c w =
     (case send_message c (ping_message (now_iso w)) w of
        (Raise e, c1, w1) \<Rightarrow> (Raise e, c1, w1)
      | (Diverge, c1, w1) \<Rightarrow> (Diverge, c1, w1)
      | (Return u, c1, w1) \<Rightarrow>
          (case receive_message L (Some 5) c1 w1 of
             (Raise e, c2, w2) \<Rightarrow> (Raise e, c2, w2)
           | (Diverge, c2, w2) \<Rightarrow> (Diverge, c2, w2)
           | (Return response, c2, w2) \<Rightarrow>
               (case reply_not_none_and_type_is response ''pong'' of
                  Inl e \<Rightarrow> (Raise e, c2, w2)
                | Inr b \<Rightarrow> (Return b, c2, w2))))"

definition close :: "client \<Rightarrow> world \<Rightarrow> unit outcome \<times> client \<times> world" where
  "close c w =
     (case websocket c of
        None \<Rightarrow> (Return (), c, w)
      | Some h \<Rightarrow> (Return (), c\<lparr>websocket := None, authenticated := False\<rparr>, ws_close h w))"

subsection \<open>\<open>example_7_reconnection\<close>: the retry loop\<close>

text \<open>
  Line 342 of the source, \<open>retry_delay = min(retry_delay * 2, 60.0)\<close>. The delays are
  the floats 1.0, 2.0, 4.0, ..., 32.0 and 60.0, all whole numbers, so they are
  natural numbers here.
\<close>

definition next_delay :: "nat \<Rightarrow> nat" where
  "next_delay retry_delay = min (retry_delay * 2) 60"

text \<open>
  The \<open>while retry_count < max_retries\<close> loop, with its three local variables as
  arguments. It returns the values of \<open>retry_count\<close> and \<open>retry_delay\<close> on leaving
  the loop. \<open>except Exception\<close> catches whatever \<open>connect\<close> raises.
\<close>

function retry_loop ::
  "(string \<Rightarrow> json option) \<Rightarrow> nat \<Rightarrow> nat \<Rightarrow> nat \<Rightarrow> client \<Rightarrow> world
     \<Rightarrow> (nat \<times> nat) outcome \<times> client \<times> world" where
  "retry_loop L max_retries retry_count retry_delay c w =
     (if retry_count < max_retries then
        (case connect L c w of
           (Return u, c1, w1) \<Rightarrow> (Return (retry_count, retry_delay), c1, sleep 1 w1)
         | (Diverge, c1, w1) \<Rightarrow> (Diverge, c1, w1)
         | (Raise e, c1, w1) \<Rightarrow>
             if Suc retry_count \<ge> max_retries
             then (Return (Suc retry_count, retry_delay), c1, w1)
             else retry_loop L max_retries (Suc retry_count) (next_delay retry_delay)
                    c1 (sleep retry_delay w1))
      else (Return (retry_count, retry_delay), c, w))"
  by pat_completeness auto
termination
  by (relation "measure (\<lambda>(L, max_retries, retry_count, retry_delay, c, w).
        max_retries - retry_count)") auto

declare retry_loop.simps [simp del]


subsection \<open>\<open>example_8_streaming_results\<close>: the receive loop\<close>







subsection \<open>Sequences of calls on one client\<close>

datatype op =
    Connect
  | Authenticate
  | SendMessage json
  | ReceiveMessage "nat option"
  | ExecuteQuery string "json list option" bool
  | Ping
  | Close

definition forget :: "'a outcome \<times> client \<times> world \<Rightarrow> unit outcome \<times> client \<times> world" where
  "forget r =
     (case r of
        (Return x, c, w) \<Rightarrow> (Return (), c, w)
      | (Raise e, c, w) \<Rightarrow> (Raise e, c, w)
      | (Diverge, c, w) \<Rightarrow> (Diverge, c, w))"

fun perform ::
  "(string \<Rightarrow> json option) \<Rightarrow> op \<Rightarrow> client \<Rightarrow> world \<Rightarrow> unit outcome \<times> client \<times> world" where
  "perform L Connect c w = connect L c w"
| "perform L Authenticate c w = forget (authenticate L c w)"
| "perform L (SendMessage m) c w = send_message c m w"
| "perform L (ReceiveMessage timeout) c w = forget (receive_message L timeout c w)"
| "perform L (ExecuteQuery sql params streaming) c w =
     forget (execute_query L sql params streaming c w)"
| "perform L Ping c w = forget (ping L c w)"
| "perform L Close c w = close c w"

text \<open>
  The caller goes on to the next call whether the last one returned or raised; after
  a call that never returns there is no next call.
\<close>

fun run :: "(string \<Rightarrow> json option) \<Rightarrow> op list \<Rightarrow> client \<Rightarrow> world \<Rightarrow> client \<times> world" where
  "run L [] c w = (c, w)"
| "run L (x # xs) c w =
     (case perform L x c w of
        (Diverge, c1, w1) \<Rightarrow> (c1, w1)
      | (r, c1, w1) \<Rightarrow> run L xs c1 w1)"

subsection \<open>Reading the log\<close>

text \<open>The sleeps of a log, oldest first.\<close>

fun sleeps :: "io_event list \<Rightarrow> nat list" where
  "sleeps [] = []"
| "sleeps (Slept d # evs) = sleeps evs @ [d]"
| "sleeps (ev # evs) = sleeps evs"

text \<open>The number of calls of \<open>websockets.connect\<close>.\<close>

fun attempts :: "io_event list \<Rightarrow> nat" where
  "attempts [] = 0"
| "attempts (Dialed u ok # evs) = Suc (attempts evs)"
| "attempts (ev # evs) = attempts evs"

text \<open>The messages sent, newest first.\<close>

fun sent_messages :: "io_event list \<Rightarrow> json list" where
  "sent_messages [] = []"
| "sent_messages (Sent h m # evs) = m # sent_messages evs"
| "sent_messages (ev # evs) = sent_messages evs"

text \<open>
  Whether a frame that passes the \<open>auth_success\<close> test of \<open>authenticate\<close> was
  received after the last \<open>websocket.close()\<close> of the log (or, with no close, at all).
\<close>

fun auth_success_since_close :: "(string \<Rightarrow> json option) \<Rightarrow> io_event list \<Rightarrow> bool" where
  "auth_success_since_close L [] = False"
| "auth_success_since_close L (Closed h # evs) = False"
| "auth_success_since_close L (Received h s # evs) =
     (reply_and_type_is (L s) ''auth_success'' = Inr True \<or> auth_success_since_close L evs)"
| "auth_success_since_close L (ev # evs) = auth_success_since_close L evs"

text \<open>The same, after the last accepted dial of the log.\<close>

fun auth_success_since_connect :: "(string \<Rightarrow> json option) \<Rightarrow> io_event list \<Rightarrow> bool" where
  "auth_success_since_connect L [] = False"
| "auth_success_since_connect L (Dialed u True # evs) = False"
| "auth_success_since_connect L (Received h s # evs) =
     (reply_and_type_is (L s) ''auth_success'' = Inr True \<or> auth_success_since_connect L evs)"
| "auth_success_since_connect L (ev # evs) = auth_success_since_connect L evs"

subsection \<open>Conditions on the inbound script\<close>

text \<open>No frame arrives, and the connection does not end, within \<open>t\<close> time-units.\<close>

definition quiet_for :: "nat \<Rightarrow> arrival list \<Rightarrow> bool" where
  "quiet_for t script =
     (case script of [] \<Rightarrow> True | Frame d s # rest \<Rightarrow> t \<le> d | Hangup # rest \<Rightarrow> False)"


subsection \<open>Conditions on a message\<close>

text \<open>The message has an \<open>id\<close> field that is a non-empty string.\<close>

definition carries_id :: "json \<Rightarrow> bool" where
  "carries_id m = (case getitem m ''id'' of Inr (JStr u) \<Rightarrow> u \<noteq> [] | _ \<Rightarrow> False)"

subsection \<open>Conditions on a client and the log\<close>

text \<open>
  If the flag is set, the client holds a connection handle and an \<open>auth_success\<close>
  reply was received since the last close.
\<close>

definition flag_justified :: "(string \<Rightarrow> json option) \<Rightarrow> client \<Rightarrow> world \<Rightarrow> bool" where
  "flag_justified L c w =
     (authenticated c \<longrightarrow> websocket c \<noteq> None \<and> auth_success_since_close L (trace w))"

subsection \<open>Concrete clients, worlds and a decoder, for the closed instances\<close>

text \<open>
  A world with the given servers and inbound script, a fixed clock reading, the
  random bytes 0, 1, 2, ... and an empty log.
\<close>

definition world0 :: "dial list \<Rightarrow> arrival list \<Rightarrow> world" where
  "world0 ds script =
     \<lparr>dials = ds, inbox = script, now_iso = ''2025-01-01T00:00:00+00:00'',
      entropy = (\<lambda>n. word_of_nat n), drawn = 0, opened = 0, trace = []\<rparr>"

text \<open>Frames of the examples, as the text on the wire.\<close>

definition pong_text :: string where
  \<open>pong_text = ''{"type": "pong", "payload": {}}''\<close>

definition auth_success_text :: string where
  \<open>auth_success_text = ''{"type": "auth_success", "payload": {}}''\<close>

definition auth_error_text :: string where
  \<open>auth_error_text = ''{"type": "auth_error", "payload": {"message": "bad token"}}''\<close>

definition data_other_text :: string where
  \<open>data_other_text =
     ''{"type": "data", "id": "other", "payload": {"rows": [[1]], "has_more": false}}''\<close>

definition batch5_text :: string where
  \<open>batch5_text =
     ''{"type": "data", "payload": {"rows": [[1], [2], [3], [4], [5]], "has_more": true}}''\<close>

definition batch3_text :: string where
  \<open>batch3_text =
     ''{"type": "data", "payload": {"rows": [[6], [7], [8]], "has_more": false}}''\<close>

definition error_text :: string where
  \<open>error_text =
     ''{"type": "error", "payload": {"message": "no such table", "code": "E42"}}''\<close>

definition array_text :: string where
  "array_text = ''[1]''"


text \<open>\<open>json.loads\<close> on these frames; any other text is taken not to be JSON.\<close>

definition loads0 :: "string \<Rightarrow> json option" where
  "loads0 =
     map_of
       [(pong_text, JObj [(''type'', JStr ''pong''), (''payload'', JObj [])]),
        (auth_success_text, JObj [(''type'', JStr ''auth_success''), (''payload'', JObj [])]),
        (auth_error_text,
           JObj [(''type'', JStr ''auth_error''),
                 (''payload'', JObj [(''message'', JStr ''bad token'')])]),
        (data_other_text,
           JObj [(''type'', JStr ''data''), (''id'', JStr ''other''),
                 (''payload'', JObj [(''rows'', JArr [JArr [JInt 1]]),
                                   (''has_more'', JBool False)])]),
        (array_text, JArr [JInt 1]),
        (batch5_text,
           JObj [(''type'', JStr ''data''),
                 (''payload'',
                    JObj [(''rows'', JArr [JArr [JInt 1], JArr [JInt 2], JArr [JInt 3],
                                          JArr [JInt 4], JArr [JInt 5]]),
                          (''has_more'', JBool True)])]),
        (batch3_text,
           JObj [(''type'', JStr ''data''),
                 (''payload'',
                    JObj [(''rows'', JArr [JArr [JInt 6], JArr [JInt 7], JArr [JInt 8]]),
                          (''has_more'', JBool False)])]),
        (error_text,
           JObj [(''type'', JStr ''error''),
                 (''payload'', JObj [(''message'', JStr ''no such table''),
                                   (''code'', JStr ''E42'')])])]"

definition no_token_client :: client where
  "no_token_client = new_client default_url None True 5"

definition token_client :: client where
  "token_client =
     new_client default_url (Some ''eyJhbGciOiJIUzI1NiIsInR5cCI6IkpXVCJ9...'') True 5"

section \<open>Properties\<close>

subsection \<open>Facts used throughout\<close>

lemma loads0_pong:
  "loads0 pong_text = Some (JObj [(''type'', JStr ''pong''), (''payload'', JObj [])])"
  by (simp add: loads0_def)

lemma loads0_auth_success:
  "loads0 auth_success_text =
     Some (JObj [(''type'', JStr ''auth_success''), (''payload'', JObj [])])"
  by (simp add: loads0_def pong_text_def auth_success_text_def)

lemma loads0_auth_error:
  "loads0 auth_error_text =
     Some (JObj [(''type'', JStr ''auth_error''),
                 (''payload'', JObj [(''message'', JStr ''bad token'')])])"
  by (simp add: loads0_def pong_text_def auth_success_text_def auth_error_text_def)

lemma loads0_data_other:
  "loads0 data_other_text =
     Some (JObj [(''type'', JStr ''data''), (''id'', JStr ''other''),
                 (''payload'', JObj [(''rows'', JArr [JArr [JInt 1]]),
                                   (''has_more'', JBool False)])])"
  by (simp add: loads0_def pong_text_def auth_success_text_def auth_error_text_def
        data_other_text_def)






text \<open>A uuid4 string has 36 characters, whatever the random bytes.\<close>

lemma length_uuid_str: "length (uuid_str u) = 36"
  by (simp add: uuid_str_def hex32_def Let_def)

lemma uuid_str_nonempty: "uuid_str u \<noteq> []"
  using length_uuid_str [of u] by auto

text \<open>Connecting the client without a token to a server that accepts.\<close>

lemma connect_no_token_world0:
  "connect L no_token_client (world0 [Accept script] []) =
     (Return (), no_token_client\<lparr>websocket := Some 0\<rparr>,
      (world0 [] script)\<lparr>opened := 1, trace := [Dialed default_url True]\<rparr>)"
  by (simp add: connect_def ws_connect_def no_token_client_def new_client_def has_token_def
        world0_def)

lemma dials_world0: "dials (world0 ds script) = ds"
  by (simp add: world0_def)

lemma has_token_token_client: "has_token token_client"
  by (simp add: token_client_def new_client_def has_token_def)

lemma auth_error_reply:
  "truthy (JObj [(''type'', JStr ''auth_error''),
                 (''payload'', JObj [(''message'', JStr ''bad token'')])])"
  "getitem (JObj [(''type'', JStr ''auth_error''),
                  (''payload'', JObj [(''message'', JStr ''bad token'')])]) ''type'' =
     Inr (JStr ''auth_error'')"
  by simp_all

subsection \<open>Closing\<close>


subsection \<open>Calls on a client without a connection\<close>

text \<open>
  C9, as the claim states it, fails for \<open>authenticate\<close>: a client that has no
  token returns \<open>False\<close> before it tries to send, connected or not.
\<close>

theorem authenticate_without_token_counterexample:
  "websocket no_token_client = None \<and>
   fst (authenticate loads0 no_token_client (world0 [] [])) = Return False \<and>
   fst (authenticate loads0 no_token_client (world0 [] [])) \<noteq>
     Raise (RuntimeError ''Not connected to server'')"
  by (simp add: no_token_client_def new_client_def authenticate_def has_token_def)

text \<open>
  C9, amended. On a client whose connection handle is absent, \<open>send_message\<close> and
  \<open>receive_message\<close> raise \<open>RuntimeError('Not connected to server')\<close> and change
  nothing, and so do \<open>execute_query\<close> and \<open>ping\<close>; \<open>authenticate\<close> raises it when
  a token is configured and returns \<open>False\<close> when none is.
\<close>

theorem not_connected_raises:
  assumes "websocket c = None"
  shows "send_message c m w = (Raise (RuntimeError ''Not connected to server''), c, w) \<and>
         receive_message L timeout c w =
           (Raise (RuntimeError ''Not connected to server''), c, w) \<and>
         fst (execute_query L sql params streaming c w) =
           Raise (RuntimeError ''Not connected to server'') \<and>
         fst (ping L c w) = Raise (RuntimeError ''Not connected to server'') \<and>
         fst (authenticate L c w) =
           (if has_token c then Raise (RuntimeError ''Not connected to server'')
            else Return False)"
  using assms
  by (simp add: send_message_def receive_message_def execute_query_def ping_def
        authenticate_def fresh_id_def)

theorem not_connected_raises_witness:
  "websocket token_client = None \<and> has_token token_client \<and>
   send_message token_client (ping_message []) (world0 [] []) =
     (Raise (RuntimeError ''Not connected to server''), token_client, world0 [] []) \<and>
   fst (authenticate loads0 token_client (world0 [] [])) =
     Raise (RuntimeError ''Not connected to server'') \<and>
   fst (ping loads0 token_client (world0 [] [])) =
     Raise (RuntimeError ''Not connected to server'')"
  using not_connected_raises [of token_client "ping_message []" "world0 [] []" loads0]
  by (simp add: token_client_def new_client_def has_token_def)

subsection \<open>Which reply a request gets\<close>

text \<open>
  C1, as the claim states it, fails: the client never compares the id of a frame
  with the id it sent. Here the request goes out with a fresh uuid4 and the caller is
  handed the next frame on the connection, whose id is \<open>other\<close>.
\<close>

theorem reply_id_differs_counterexample:
  "(case connect loads0 no_token_client (world0 [Accept [Frame 0 data_other_text]] []) of
      (r0, c1, w1) \<Rightarrow>
        (case execute_query loads0 ''SELECT COUNT(*) FROM users'' None True c1 w1 of
           (r, c2, w2) \<Rightarrow>
             r0 = Return () \<and>
             map (\<lambda>m. getitem m ''id'') (sent_messages (trace w2)) =
               [Inr (JStr (uuid_str (uuid4 0)))] \<and>
             (\<exists>reply. r = Return (Some reply) \<and> getitem reply ''id'' = Inr (JStr ''other'')) \<and>
             uuid_str (uuid4 0) \<noteq> ''other''))"
proof -
  have "length (uuid_str (uuid4 0)) \<noteq> length ''other''"
    by (simp add: length_uuid_str)
  then have ne: "uuid_str (uuid4 0) \<noteq> ''other''"
    by auto
  show ?thesis
    unfolding connect_no_token_world0
    using ne
    by (simp add: world0_def execute_query_def fresh_id_def send_message_def ws_send_def
          receive_message_def ws_recv_within_def loads0_data_other query_message_def)
qed

text \<open>
  C1, amended. A request sent with \<open>execute_query\<close> on a connected client is
  answered with the next frame that arrives on the connection within 5 time-units,
  decoded, whatever id that frame carries: replies are matched by arrival order and
  not by id. The request is sent with a fresh uuid4 as its id, the frame is taken off
  the connection, and the client is unchanged. So the reply carries the id of the
  request exactly when the next frame of the server does.
\<close>

theorem execute_query_returns_next_frame:
  assumes "websocket c = Some h" and "inbox w = Frame d s # rest" and "d < 5"
  shows "execute_query L sql params streaming c w =
           (Return (L s), c,
            w\<lparr>drawn := Suc (drawn w), inbox := rest,
              trace := Received h s #
                Sent h (query_message sql params streaming (now_iso w)
                          (uuid_str (uuid4 (entropy w (drawn w))))) # trace w\<rparr>)"
  using assms
  by (simp add: execute_query_def fresh_id_def send_message_def ws_send_def
        receive_message_def ws_recv_within_def)

theorem execute_query_returns_next_frame_witness:
  "(case execute_query loads0 ''SELECT 1'' None True (no_token_client\<lparr>websocket := Some 0\<rparr>)
           (world0 [] [Frame 0 data_other_text]) of
      (r, c2, w2) \<Rightarrow> r = Return (loads0 data_other_text) \<and> inbox w2 = [])"
  using execute_query_returns_next_frame [of "no_token_client\<lparr>websocket := Some 0\<rparr>" 0
      "world0 [] [Frame 0 data_other_text]" 0 data_other_text "[]" loads0 "''SELECT 1''" None True]
  by (simp add: world0_def)

subsection \<open>A request whose reply does not arrive in time\<close>

text \<open>
  C4, as the claim states it, fails: \<open>receive_message\<close> catches the
  \<open>TimeoutError\<close> of the wait and returns \<open>None\<close>, so the request resolves with
  \<open>None\<close> and raises nothing.
\<close>

theorem timeout_returns_none_counterexample:
  "(case connect loads0 no_token_client (world0 [Accept []] []) of
      (r0, c1, w1) \<Rightarrow>
        r0 = Return () \<and>
        fst (execute_query loads0 ''SELECT 1'' None True c1 w1) = Return None \<and>
        fst (execute_query loads0 ''SELECT 1'' None True c1 w1) \<noteq> Raise TimeoutError)"
  unfolding connect_no_token_world0
  by (simp add: world0_def execute_query_def fresh_id_def send_message_def ws_send_def
        receive_message_def ws_recv_within_def)

lemma execute_query_quiet:
  assumes "websocket c = Some h" and "quiet_for 5 (inbox w)"
  shows "execute_query L sql params streaming c w =
           (Return None, c,
            w\<lparr>drawn := Suc (drawn w), inbox := elapse 5 (inbox w),
              trace := Waited 5 #
                Sent h (query_message sql params streaming (now_iso w)
                          (uuid_str (uuid4 (entropy w (drawn w))))) # trace w\<rparr>)"
  using assms
  by (auto simp: execute_query_def fresh_id_def send_message_def ws_send_def
        receive_message_def ws_recv_within_def quiet_for_def
        split: list.splits arrival.splits)

lemma execute_query_in_time:
  assumes "websocket c = Some h" and "inbox w = Frame d s # rest" and "d < 5"
  shows "execute_query L sql params streaming c w =
           (Return (L s), c,
            w\<lparr>drawn := Suc (drawn w), inbox := rest,
              trace := Received h s #
                Sent h (query_message sql params streaming (now_iso w)
                          (uuid_str (uuid4 (entropy w (drawn w))))) # trace w\<rparr>)"
  using assms
  by (simp add: execute_query_def fresh_id_def send_message_def ws_send_def
        receive_message_def ws_recv_within_def)

text \<open>
  C4, amended. A request sent with \<open>execute_query\<close> on a connected client that
  gets no frame within its deadline of 5 time-units resolves with \<open>None\<close> (not with
  \<open>TimeoutError\<close>); the client and its connection handle are untouched and the frames
  still on their way are 5 time-units nearer; a subsequent request on the same session
  whose next frame arrives within its own deadline completes with that frame.
\<close>

theorem timeout_is_local:
  assumes "websocket c = Some h" and "quiet_for 5 (inbox w)"
  shows "(case execute_query L sql params streaming c w of
            (r1, c1, w1) \<Rightarrow>
              r1 = Return None \<and> c1 = c \<and> inbox w1 = elapse 5 (inbox w) \<and>
              (\<forall>d s rest. inbox w1 = Frame d s # rest \<and> d < 5 \<longrightarrow>
                 (case execute_query L sql2 params2 streaming2 c1 w1 of
                    (r2, c2, w2) \<Rightarrow> r2 = Return (L s) \<and> c2 = c \<and> inbox w2 = rest)))"
  using assms
  by (auto simp: execute_query_quiet execute_query_in_time)

theorem timeout_is_local_witness:
  "quiet_for 5 [Frame 7 pong_text] \<and>
   (case execute_query loads0 ''SELECT 1'' None True (no_token_client\<lparr>websocket := Some 0\<rparr>)
           (world0 [] [Frame 7 pong_text]) of
      (r1, c1, w1) \<Rightarrow>
        r1 = Return None \<and> c1 = no_token_client\<lparr>websocket := Some 0\<rparr> \<and>
        inbox w1 = [Frame 2 pong_text] \<and>
        (case execute_query loads0 ''SELECT 2'' None True c1 w1 of
           (r2, c2, w2) \<Rightarrow> r2 = Return (loads0 pong_text) \<and> inbox w2 = []))"
  using timeout_is_local [where c = "no_token_client\<lparr>websocket := Some 0\<rparr>" and h = 0
      and w = "world0 [] [Frame 7 pong_text]" and L = loads0 and sql = "''SELECT 1''"
      and params = None and streaming = True and ?sql2.0 = "''SELECT 2''"
      and ?params2.0 = None and ?streaming2.0 = True]
  by (auto simp: world0_def quiet_for_def split: prod.splits)

subsection \<open>Frames that are not a message\<close>




subsection \<open>A rejected credential\<close>

lemma authenticate_auth_error:
  assumes "has_token c" and "websocket c = Some h" and "inbox w = Frame d s # rest"
    and "d < 5" and "L s = Some j" and "truthy j"
    and "getitem j ''type'' = Inr (JStr ''auth_error'')"
  shows "authenticate L c w =
           (Return False, c\<lparr>authenticated := False\<rparr>,
            w\<lparr>drawn := Suc (drawn w), inbox := rest,
              trace := Received h s #
                Sent h (auth_message (token_text c) (now_iso w)
                          (uuid_str (uuid4 (entropy w (drawn w))))) # trace w\<rparr>)"
  using assms
  by (simp add: authenticate_def fresh_id_def send_message_def ws_send_def
        receive_message_def ws_recv_within_def reply_and_type_is_def)

lemma connect_auth_error:
  assumes "has_token c" and "dials w = Accept (Frame d s # rest) # ds"
    and "d < 5" and "L s = Some j" and "truthy j"
    and "getitem j ''type'' = Inr (JStr ''auth_error'')"
  shows "connect L c w =
           (Return (),
            c\<lparr>websocket := Some (opened w), reconnect_count := 0, authenticated := False\<rparr>,
            w\<lparr>dials := ds, inbox := rest, drawn := Suc (drawn w), opened := Suc (opened w),
              trace := Received (opened w) s #
                Sent (opened w) (auth_message (token_text c) (now_iso w)
                          (uuid_str (uuid4 (entropy w (drawn w))))) #
                Dialed (url c) True # trace w\<rparr>)"
proof -
  let ?c1 = "c\<lparr>websocket := Some (opened w)\<rparr>"
  let ?w1 = "w\<lparr>dials := ds, inbox := Frame d s # rest, opened := Suc (opened w),
               trace := Dialed (url c) True # trace w\<rparr>"
  have dial: "ws_connect (url c) w = (Inr (opened w), ?w1)"
    using assms(2) by (simp add: ws_connect_def)
  have tok: "has_token ?c1" "token_text ?c1 = token_text c"
    using assms(1) by (simp_all add: has_token_def token_text_def)
  have "authenticate L ?c1 ?w1 =
          (Return False, ?c1\<lparr>authenticated := False\<rparr>,
           ?w1\<lparr>drawn := Suc (drawn ?w1), inbox := rest,
              trace := Received (opened w) s #
                Sent (opened w) (auth_message (token_text ?c1) (now_iso ?w1)
                          (uuid_str (uuid4 (entropy ?w1 (drawn ?w1))))) # trace ?w1\<rparr>)"
    using tok(1) assms(3-6)
    by (intro authenticate_auth_error [where L = L and d = d and s = s and j = j]) simp_all
  then show ?thesis
    using dial tok by (simp add: connect_def)
qed

text \<open>
  C2, as the claim states it, fails: the client has no failed state. \<open>connect\<close>
  does not look at what \<open>authenticate\<close> returns, so after an \<open>auth_error\<close> it
  returns normally with the connection handle in place, and the next query is sent
  and answered.
\<close>

theorem session_not_failed_counterexample:
  "(case connect loads0 token_client
           (world0 [Accept [Frame 0 auth_error_text, Frame 0 data_other_text]] []) of
      (r0, c1, w1) \<Rightarrow>
        r0 = Return () \<and> websocket c1 = Some 0 \<and>
        fst (execute_query loads0 ''SELECT 1'' None True c1 w1) =
          Return (loads0 data_other_text))"
proof -
  note eq = connect_auth_error [where L = loads0 and c = token_client
      and w = "world0 [Accept [Frame 0 auth_error_text, Frame 0 data_other_text]] []"
      and d = 0 and s = auth_error_text and rest = "[Frame 0 data_other_text]" and ds = "[]",
      OF has_token_token_client dials_world0 zero_less_numeral loads0_auth_error
        auth_error_reply]
  show ?thesis
    unfolding eq
    by (simp add: execute_query_in_time [where d = 0 and h = 0] world0_def)
qed

text \<open>
  C2, amended. When the authentication exchange of \<open>connect\<close> receives an
  \<open>auth_error\<close> reply, \<open>connect\<close> returns normally with \<open>authenticated = False\<close>,
  the connection handle in place and \<open>reconnect_count = 0\<close>, having dialled once; the
  retry loop of \<open>example_7_reconnection\<close>, run on such a client, leaves after this
  one attempt without a backoff sleep (its only sleep is the one after a successful
  connect). No reconnect attempt is made.
\<close>

theorem auth_error_leaves_session_open:
  assumes "has_token c" and "dials w = Accept (Frame d s # rest) # ds"
    and "d < 5" and "L s = Some j" and "truthy j"
    and "getitem j ''type'' = Inr (JStr ''auth_error'')"
  shows "(case connect L c w of
            (r, c1, w1) \<Rightarrow>
              r = Return () \<and> authenticated c1 = False \<and> websocket c1 = Some (opened w) \<and>
              reconnect_count c1 = 0 \<and> dials w1 = ds \<and>
              attempts (trace w1) = Suc (attempts (trace w))) \<and>
         (case retry_loop L (Suc n) 0 retry_delay c w of
            (r, c1, w1) \<Rightarrow>
              r = Return (0, retry_delay) \<and> authenticated c1 = False \<and>
              websocket c1 = Some (opened w) \<and>
              attempts (trace w1) = Suc (attempts (trace w)) \<and> sleeps (trace w1) = sleeps (trace w) @ [1])"
proof -
  note eq = connect_auth_error [where L = L and c = c and w = w and d = d and s = s
      and j = j and rest = rest and ds = ds, OF assms]
  show ?thesis
    by (simp add: eq retry_loop.simps [of L "Suc n" 0] sleep_def)
qed

theorem auth_error_leaves_session_open_witness:
  "has_token token_client \<and>
   (case connect loads0 token_client (world0 [Accept [Frame 0 auth_error_text]] []) of
      (r, c1, w1) \<Rightarrow>
        r = Return () \<and> authenticated c1 = False \<and> websocket c1 = Some 0 \<and>
        attempts (trace w1) = 1) \<and>
   (case retry_loop loads0 3 0 1 token_client (world0 [Accept [Frame 0 auth_error_text]] []) of
      (r, c1, w1) \<Rightarrow> r = Return (0, 1) \<and> attempts (trace w1) = 1)"
  using auth_error_leaves_session_open [where L = loads0 and c = token_client
      and w = "world0 [Accept [Frame 0 auth_error_text]] []"
      and d = 0 and s = auth_error_text and rest = "[]" and ds = "[]" and n = 2
      and retry_delay = 1,
      OF has_token_token_client dials_world0 zero_less_numeral loads0_auth_error
        auth_error_reply]
  by (simp add: world0_def has_token_token_client numeral_3_eq_3 split: prod.splits)

subsection \<open>The id of a request\<close>

lemma sent_send_message:
  "sent_messages (trace (snd (snd (send_message c m w)))) =
     (if fst (send_message c m w) = Return () then [m] else []) @ sent_messages (trace w)"
  by (simp add: send_message_def ws_send_def split: option.splits list.splits arrival.splits)

lemma sent_receive_message:
  "sent_messages (trace (snd (snd (receive_message L t c w)))) = sent_messages (trace w)"
  by (simp add: receive_message_def ws_recv_def ws_recv_within_def
        split: option.splits list.splits arrival.splits)

lemma carries_id_query: "carries_id (query_message sql params streaming ts (uuid_str u))"
  by (simp add: carries_id_def query_message_def uuid_str_nonempty)

lemma carries_id_auth: "carries_id (auth_message tok ts (uuid_str u))"
  by (simp add: carries_id_def auth_message_def uuid_str_nonempty)

lemma sent_execute_query:
  "set (sent_messages (trace (snd (snd (execute_query L sql params streaming c w))))) \<subseteq>
     set (sent_messages (trace w)) \<union> Collect carries_id"
proof -
  obtain uid w0 where f: "fresh_id w = (uid, w0)" by (cases "fresh_id w")
  then have uid: "uid = uuid_str (uuid4 (entropy w (drawn w)))" and w0: "trace w0 = trace w"
    by (auto simp: fresh_id_def)
  let ?m = "query_message sql params streaming (now_iso w0) uid"
  obtain r c1 w1 where s: "send_message c ?m w0 = (r, c1, w1)" by (cases "send_message c ?m w0")
  have s1: "set (sent_messages (trace w1)) \<subseteq> set (sent_messages (trace w)) \<union> Collect carries_id"
    using sent_send_message [of c ?m w0] s w0 uid carries_id_query by (auto split: if_splits)
  show ?thesis
    using s1 sent_receive_message [of L "Some 5" c1 w1]
    by (cases r) (simp_all add: execute_query_def f s)
qed

lemma sent_authenticate:
  "set (sent_messages (trace (snd (snd (authenticate L c w))))) \<subseteq>
     set (sent_messages (trace w)) \<union> Collect carries_id"
proof (cases "has_token c")
  case False
  then show ?thesis by (simp add: authenticate_def)
next
  case True
  obtain uid w0 where f: "fresh_id w = (uid, w0)" by (cases "fresh_id w")
  then have uid: "uid = uuid_str (uuid4 (entropy w (drawn w)))" and w0: "trace w0 = trace w"
    by (auto simp: fresh_id_def)
  let ?m = "auth_message (token_text c) (now_iso w0) uid"
  obtain r c1 w1 where s: "send_message c ?m w0 = (r, c1, w1)" by (cases "send_message c ?m w0")
  have s1: "set (sent_messages (trace w1)) \<subseteq> set (sent_messages (trace w)) \<union> Collect carries_id"
    using sent_send_message [of c ?m w0] s w0 uid carries_id_auth by (auto split: if_splits)
  obtain r2 c2 w2 where rc: "receive_message L (Some 5) c1 w1 = (r2, c2, w2)"
    by (cases "receive_message L (Some 5) c1 w1")
  have s2: "sent_messages (trace w2) = sent_messages (trace w1)"
    using sent_receive_message [of L "Some 5" c1 w1] rc by simp
  show ?thesis
    using s1 s2 True
    by (cases r; cases r2)
       (simp_all add: authenticate_def f s rc split: sum.splits bool.splits)
qed

lemma sent_connect:
  "set (sent_messages (trace (snd (snd (connect L c w))))) \<subseteq>
     set (sent_messages (trace w)) \<union> Collect carries_id"
proof -
  obtain r w1 where d: "ws_connect (url c) w = (r, w1)" by (cases "ws_connect (url c) w")
  then have w1: "sent_messages (trace w1) = sent_messages (trace w)"
    by (auto simp: ws_connect_def split: list.splits dial.splits)
  show ?thesis
  proof (cases r)
    case (Inl e)
    then show ?thesis using d w1 by (simp add: connect_def)
  next
    case (Inr h)
    let ?c1 = "c\<lparr>websocket := Some h\<rparr>"
    obtain r2 c2 w2 where a: "authenticate L ?c1 w1 = (r2, c2, w2)"
      by (cases "authenticate L ?c1 w1")
    have "set (sent_messages (trace w2)) \<subseteq> set (sent_messages (trace w1)) \<union> Collect carries_id"
      using sent_authenticate [of L ?c1 w1] a by simp
    then show ?thesis
      using d w1 Inr a by (cases r2) (simp_all add: connect_def Let_def)
  qed
qed

text \<open>
  C6, as the claim states it, fails for \<open>ping\<close>: its message has the fields
  \<open>type\<close>, \<open>payload\<close> and \<open>timestamp\<close> and no \<open>id\<close>.
\<close>

theorem ping_without_id_counterexample:
  "(case connect loads0 no_token_client (world0 [Accept [Frame 0 pong_text]] []) of
      (r0, c1, w1) \<Rightarrow>
        (case ping loads0 c1 w1 of
           (r, c2, w2) \<Rightarrow>
             r0 = Return () \<and> r = Return True \<and>
             sent_messages (trace w2) = [ping_message (now_iso w1)] \<and>
             getitem (ping_message (now_iso w1)) ''id'' = Inl (KeyError ''id'') \<and>
             \<not> carries_id (ping_message (now_iso w1))))"
  unfolding connect_no_token_world0
  by (simp add: world0_def ping_def send_message_def ws_send_def receive_message_def
        ws_recv_within_def loads0_pong reply_not_none_and_type_is_def ping_message_def
        carries_id_def)

text \<open>
  C6, amended. Every message that \<open>execute_query\<close>, \<open>authenticate\<close> or
  \<open>connect\<close> (through its handshake) sends carries a non-empty \<open>id\<close>; the
  \<open>ping\<close> message carries no \<open>id\<close>.
\<close>

theorem auth_and_query_carry_id:
  "set (sent_messages (trace (snd (snd (execute_query L sql params streaming c w))))) \<subseteq>
     set (sent_messages (trace w)) \<union> Collect carries_id \<and>
   set (sent_messages (trace (snd (snd (authenticate L c w))))) \<subseteq>
     set (sent_messages (trace w)) \<union> Collect carries_id \<and>
   set (sent_messages (trace (snd (snd (connect L c w))))) \<subseteq>
     set (sent_messages (trace w)) \<union> Collect carries_id \<and>
   \<not> carries_id (ping_message ts)"
  by (simp add: sent_execute_query sent_authenticate sent_connect carries_id_def
        ping_message_def)

theorem auth_and_query_carry_id_witness:
  "(case execute_query loads0 ''SELECT 1'' None True (no_token_client\<lparr>websocket := Some 0\<rparr>)
           (world0 [] []) of
      (r, c1, w1) \<Rightarrow>
        length (sent_messages (trace w1)) = 1 \<and> list_all carries_id (sent_messages (trace w1)))"
proof -
  have q: "quiet_for 5 (inbox (world0 [] []))" and t: "sent_messages (trace (world0 [] [])) = []"
    by (simp_all add: world0_def quiet_for_def)
  have "list_all carries_id
          (sent_messages (trace (snd (snd (execute_query loads0 ''SELECT 1'' None True
             (no_token_client\<lparr>websocket := Some 0\<rparr>) (world0 [] []))))))"
    using auth_and_query_carry_id [of loads0 "''SELECT 1''" None True
        "no_token_client\<lparr>websocket := Some 0\<rparr>" "world0 [] []"] t
    by (auto simp: list_all_iff)
  then show ?thesis
    by (simp add: execute_query_quiet [where h = 0, OF _ q] t split: prod.splits)
qed

subsection \<open>The delays of the retry loop\<close>











subsection \<open>The receive loop of the streaming example\<close>









subsection \<open>The \<open>authenticated\<close> flag\<close>

lemma authenticate_auth_success:
  assumes "has_token c" and "websocket c = Some h" and "inbox w = Frame d s # rest"
    and "d < 5" and "L s = Some j" and "truthy j"
    and "getitem j ''type'' = Inr (JStr ''auth_success'')"
  shows "authenticate L c w =
           (Return True, c\<lparr>authenticated := True\<rparr>,
            w\<lparr>drawn := Suc (drawn w), inbox := rest,
              trace := Received h s #
                Sent h (auth_message (token_text c) (now_iso w)
                          (uuid_str (uuid4 (entropy w (drawn w))))) # trace w\<rparr>)"
  using assms
  by (simp add: authenticate_def fresh_id_def send_message_def ws_send_def
        receive_message_def ws_recv_within_def reply_and_type_is_def)

lemma send_message_log:
  assumes "send_message c m w = (r, c1, w1)"
  shows "c1 = c \<and> (trace w1 = trace w \<or> (\<exists>h. trace w1 = Sent h m # trace w))"
  using assms
  by (auto simp: send_message_def ws_send_def split: option.splits list.splits arrival.splits)

lemma receive_message_log:
  assumes "receive_message L t c w = (r, c1, w1)"
  shows "c1 = c \<and>
         (trace w1 = trace w \<and> (\<forall>x. r \<noteq> Return (Some x)) \<or>
          (\<exists>k. trace w1 = Waited k # trace w \<and> r = Return None) \<or>
          (\<exists>h s. trace w1 = Received h s # trace w \<and> r = Return (L s)))"
  using assms
  by (auto simp: receive_message_def ws_recv_def ws_recv_within_def
        split: option.splits list.splits arrival.splits if_splits)

lemma send_message_keeps:
  assumes "send_message c m w = (r, c1, w1)" and "flag_justified L c w"
  shows "flag_justified L c1 w1"
  using send_message_log [OF assms(1)] assms(2)
  by (auto simp: flag_justified_def)

lemma receive_message_keeps:
  assumes "receive_message L t c w = (r, c1, w1)" and "flag_justified L c w"
  shows "flag_justified L c1 w1"
  using receive_message_log [OF assms(1)] assms(2)
  by (auto simp: flag_justified_def)

lemma receive_auth_success:
  assumes "receive_message L t c w = (Return response, c1, w1)"
    and "reply_and_type_is response ''auth_success'' = Inr True"
  shows "auth_success_since_close L (trace w1)"
  using receive_message_log [OF assms(1)] assms(2)
  by (auto simp: reply_and_type_is_def)

lemma fresh_id_log: "fresh_id w = (uid, w0) \<Longrightarrow> trace w0 = trace w"
  by (auto simp: fresh_id_def)

lemma send_message_returned:
  "send_message c m w = (Return u, c1, w1) \<Longrightarrow> websocket c \<noteq> None"
  by (auto simp: send_message_def split: option.splits)

lemma authenticate_keeps:
  assumes "authenticate L c w = (r, c1, w1)" and "flag_justified L c w"
  shows "flag_justified L c1 w1 \<and> websocket c1 = websocket c"
proof (cases "has_token c")
  case False
  with assms show ?thesis by (simp add: authenticate_def)
next
  case True
  obtain uid w0 where f: "fresh_id w = (uid, w0)" by (cases "fresh_id w")
  have j0: "flag_justified L c w0"
    using assms(2) fresh_id_log [OF f] by (simp add: flag_justified_def)
  let ?m = "auth_message (token_text c) (now_iso w0) uid"
  obtain r1 c' w' where s: "send_message c ?m w0 = (r1, c', w')"
    by (cases "send_message c ?m w0")
  have c': "c' = c" and j1: "flag_justified L c w'"
    using send_message_log [OF s] send_message_keeps [OF s j0] by auto
  obtain r2 c'' w'' where rc: "receive_message L (Some 5) c w' = (r2, c'', w'')"
    by (cases "receive_message L (Some 5) c w'")
  have c'': "c'' = c" and j2: "flag_justified L c w''"
    using receive_message_log [OF rc] receive_message_keeps [OF rc j1] by auto
  show ?thesis
  proof (cases r1)
    case (Return u)
    show ?thesis
    proof (cases r2)
      case (Return response)
      have ok: "reply_and_type_is response ''auth_success'' = Inr True \<Longrightarrow>
                  auth_success_since_close L (trace w'')"
        using receive_auth_success rc Return by blast
      show ?thesis
        using assms(1) True f s c' rc c'' j2 \<open>r1 = Return u\<close> Return ok
          send_message_returned [of c ?m w0 u c' w']
        by (auto simp: authenticate_def flag_justified_def split: sum.splits bool.splits)
    next
      case (Raise e)
      then show ?thesis
        using assms(1) True f s c' rc c'' j2 \<open>r1 = Return u\<close>
        by (auto simp: authenticate_def)
    next
      case Diverge
      then show ?thesis
        using assms(1) True f s c' rc c'' j2 \<open>r1 = Return u\<close>
        by (auto simp: authenticate_def)
    qed
  next
    case (Raise e)
    then show ?thesis
      using assms(1) True f s c' j1 by (auto simp: authenticate_def)
  next
    case Diverge
    then show ?thesis
      using assms(1) True f s c' j1 by (auto simp: authenticate_def)
  qed
qed

lemma connect_keeps:
  assumes "connect L c w = (r, c1, w1)" and "flag_justified L c w"
  shows "flag_justified L c1 w1"
proof -
  obtain d w0 where dl: "ws_connect (url c) w = (d, w0)" by (cases "ws_connect (url c) w")
  then have t: "\<exists>ok. trace w0 = Dialed (url c) ok # trace w"
    by (auto simp: ws_connect_def split: list.splits dial.splits)
  show ?thesis
  proof (cases d)
    case (Inl e)
    then show ?thesis
      using assms dl t by (auto simp: connect_def flag_justified_def)
  next
    case (Inr h)
    let ?c0 = "c\<lparr>websocket := Some h\<rparr>"
    have j0: "flag_justified L ?c0 w0"
      using assms(2) t by (auto simp: flag_justified_def)
    obtain r2 c2 w2 where a: "authenticate L ?c0 w0 = (r2, c2, w2)"
      by (cases "authenticate L ?c0 w0")
    have j2: "flag_justified L c2 w2"
      using authenticate_keeps [OF a j0] by simp
    show ?thesis
    proof (cases "has_token ?c0")
      case True
      then show ?thesis
        using assms(1) dl Inr a j2
        by (cases r2) (auto simp: connect_def Let_def flag_justified_def)
    next
      case False
      then show ?thesis
        using assms(1) dl Inr j0
        by (auto simp: connect_def Let_def flag_justified_def)
    qed
  qed
qed

lemma execute_query_keeps:
  assumes "execute_query L sql params streaming c w = (r, c1, w1)" and "flag_justified L c w"
  shows "flag_justified L c1 w1"
proof -
  obtain uid w0 where f: "fresh_id w = (uid, w0)" by (cases "fresh_id w")
  have j0: "flag_justified L c w0"
    using assms(2) fresh_id_log [OF f] by (simp add: flag_justified_def)
  let ?m = "query_message sql params streaming (now_iso w0) uid"
  obtain r1 c' w' where s: "send_message c ?m w0 = (r1, c', w')"
    by (cases "send_message c ?m w0")
  have j1: "flag_justified L c' w'"
    using send_message_keeps [OF s j0] .
  show ?thesis
  proof (cases r1)
    case (Return u)
    then have "receive_message L (Some 5) c' w' = (r, c1, w1)"
      using assms(1) f s by (simp add: execute_query_def)
    then show ?thesis
      using j1 by (rule receive_message_keeps)
  next
    case (Raise e)
    then show ?thesis
      using assms(1) f s j1 by (auto simp: execute_query_def)
  next
    case Diverge
    then show ?thesis
      using assms(1) f s j1 by (auto simp: execute_query_def)
  qed
qed

lemma ping_keeps:
  assumes "ping L c w = (r, c1, w1)" and "flag_justified L c w"
  shows "flag_justified L c1 w1"
proof -
  let ?m = "ping_message (now_iso w)"
  obtain r1 c' w' where s: "send_message c ?m w = (r1, c', w')"
    by (cases "send_message c ?m w")
  have j1: "flag_justified L c' w'"
    using send_message_keeps [OF s assms(2)] .
  obtain r2 c'' w'' where rc: "receive_message L (Some 5) c' w' = (r2, c'', w'')"
    by (cases "receive_message L (Some 5) c' w'")
  have j2: "flag_justified L c'' w''"
    using receive_message_keeps [OF rc j1] .
  show ?thesis
    using assms(1) s rc j1 j2
    by (cases r1; cases r2) (auto simp: ping_def split: sum.splits)
qed

lemma close_resets:
  assumes "close c w = (r, c1, w1)" and "flag_justified L c w"
  shows "flag_justified L c1 w1 \<and> authenticated c1 = False"
  using assms
  by (auto simp: close_def flag_justified_def split: option.splits)

lemma forget_eq:
  "forget x = (r, c1, w1) \<Longrightarrow> \<exists>r0. x = (r0, c1, w1)"
  by (auto simp: forget_def split: prod.splits outcome.splits)

lemma perform_keeps:
  assumes "perform L x c w = (r, c1, w1)" and "flag_justified L c w"
  shows "flag_justified L c1 w1"
proof (cases x)
  case Connect
  then show ?thesis using assms connect_keeps by simp
next
  case Authenticate
  then show ?thesis using assms authenticate_keeps forget_eq by (metis perform.simps(2))
next
  case (SendMessage m)
  then show ?thesis using assms send_message_keeps by simp
next
  case (ReceiveMessage t)
  then show ?thesis using assms receive_message_keeps forget_eq by (metis perform.simps(4))
next
  case (ExecuteQuery sql params streaming)
  then show ?thesis using assms execute_query_keeps forget_eq by (metis perform.simps(5))
next
  case Ping
  then show ?thesis using assms ping_keeps forget_eq by (metis perform.simps(6))
next
  case Close
  then show ?thesis using assms close_resets by (metis perform.simps(7))
qed

lemma run_keeps:
  assumes "flag_justified L c w"
  shows "flag_justified L (fst (run L xs c w)) (snd (run L xs c w))"
  using assms
proof (induction xs arbitrary: c w)
  case Nil
  then show ?case by simp
next
  case (Cons x xs)
  obtain r c1 w1 where p: "perform L x c w = (r, c1, w1)" by (cases "perform L x c w")
  have j: "flag_justified L c1 w1"
    using perform_keeps [OF p Cons.prems] .
  show ?case
    using p j Cons.IH [OF j] by (cases r) simp_all
qed

lemmas run_defs = connect_def ws_connect_def authenticate_def fresh_id_def send_message_def
  ws_send_def receive_message_def ws_recv_within_def reply_and_type_is_def has_token_def
  token_text_def

text \<open>
  C10, as the claim states it, fails: \<open>connect\<close> does not touch the flag, and an
  authentication exchange that gets no reply leaves it as it was. After a connect
  with an \<open>auth_success\<close> and a second connect whose handshake gets no reply, the
  flag is still set, on a connection that has received no \<open>auth_success\<close>.
\<close>

theorem stale_flag_counterexample:
  "(case run loads0 [Connect, Connect] token_client
           (world0 [Accept [Frame 0 auth_success_text], Accept []] []) of
      (c1, w1) \<Rightarrow>
        authenticated c1 \<and> websocket c1 = Some 1 \<and>
        \<not> auth_success_since_connect loads0 (trace w1))"
  by (simp add: run_defs token_client_def new_client_def world0_def loads0_auth_success)

text \<open>
  C10, amended. For every sequence of calls on a newly constructed client, the
  \<open>authenticated\<close> flag is set only if the client holds a connection handle and an
  \<open>auth_success\<close> reply was received since the most recent \<open>close()\<close> of a
  connection (or since construction, if there was none). The flag is \<open>False\<close> at
  construction, an \<open>auth_success\<close> reply to \<open>authenticate\<close> sets it, an
  \<open>auth_error\<close> reply clears it, and after every \<open>close()\<close> it is \<open>False\<close>.
\<close>

theorem authenticated_only_after_auth_success:
  "authenticated (new_client u tok ar mx) = False \<and>
   (case run L xs (new_client u tok ar mx) w of
      (c1, w1) \<Rightarrow>
        (authenticated c1 \<longrightarrow>
           websocket c1 \<noteq> None \<and> auth_success_since_close L (trace w1)) \<and>
        (case close c1 w1 of (r, c2, w2) \<Rightarrow> r = Return () \<and> authenticated c2 = False)) \<and>
   (has_token c \<and> websocket c = Some h \<and> inbox wa = Frame d s # rest \<and> d < 5 \<and>
    L s = Some j \<and> truthy j \<and> getitem j ''type'' = Inr (JStr ''auth_success'')
    \<longrightarrow> authenticated (fst (snd (authenticate L c wa))) = True) \<and>
   (has_token c \<and> websocket c = Some h \<and> inbox wa = Frame d s # rest \<and> d < 5 \<and>
    L s = Some j \<and> truthy j \<and> getitem j ''type'' = Inr (JStr ''auth_error'')
    \<longrightarrow> authenticated (fst (snd (authenticate L c wa))) = False)"
proof -
  let ?c = "new_client u tok ar mx"
  have init: "flag_justified L ?c w"
    by (simp add: flag_justified_def new_client_def)
  obtain c1 w1 where r: "run L xs ?c w = (c1, w1)" by (cases "run L xs ?c w")
  have j: "flag_justified L c1 w1"
    using run_keeps [OF init, of xs] r by simp
  obtain r2 c2 w2 where cl: "close c1 w1 = (r2, c2, w2)" by (cases "close c1 w1")
  have "authenticated c2 = False" "r2 = Return ()"
    using close_resets [OF cl j] cl by (auto simp: close_def split: option.splits)
  then have runs: "authenticated ?c = False \<and>
   (case run L xs ?c w of
      (c1, w1) \<Rightarrow>
        (authenticated c1 \<longrightarrow>
           websocket c1 \<noteq> None \<and> auth_success_since_close L (trace w1)) \<and>
        (case close c1 w1 of (r, c2, w2) \<Rightarrow> r = Return () \<and> authenticated c2 = False))"
    using r j cl by (simp add: flag_justified_def new_client_def)
  have yes: "has_token c \<and> websocket c = Some h \<and> inbox wa = Frame d s # rest \<and> d < 5 \<and>
    L s = Some j \<and> truthy j \<and> getitem j ''type'' = Inr (JStr ''auth_success'')
    \<longrightarrow> authenticated (fst (snd (authenticate L c wa))) = True"
    by (simp add: authenticate_auth_success [where L = L and d = d and s = s and j = j
          and h = h and rest = rest])
  have no: "has_token c \<and> websocket c = Some h \<and> inbox wa = Frame d s # rest \<and> d < 5 \<and>
    L s = Some j \<and> truthy j \<and> getitem j ''type'' = Inr (JStr ''auth_error'')
    \<longrightarrow> authenticated (fst (snd (authenticate L c wa))) = False"
    by (simp add: authenticate_auth_error [where L = L and d = d and s = s and j = j
          and h = h and rest = rest])
  show ?thesis
    by (rule conjI [OF runs [THEN conjunct1]
          conjI [OF runs [THEN conjunct2] conjI [OF yes no]]])
qed

theorem authenticated_only_after_auth_success_witness:
  "(case run loads0 [Connect] token_client
           (world0 [Accept [Frame 0 auth_success_text]] []) of
      (c1, w1) \<Rightarrow>
        authenticated c1 \<and> websocket c1 = Some 0 \<and>
        auth_success_since_close loads0 (trace w1) \<and>
        authenticated (fst (snd (close c1 w1))) = False) \<and>
   authenticated (fst (snd (authenticate loads0 (token_client\<lparr>websocket := Some 0\<rparr>)
      (world0 [] [Frame 0 auth_success_text])))) = True \<and>
   authenticated (fst (snd (authenticate loads0
      (token_client\<lparr>websocket := Some 0, authenticated := True\<rparr>)
      (world0 [] [Frame 0 auth_error_text])))) = False"
  using authenticated_only_after_auth_success [where L = loads0 and xs = "[Connect]"
      and u = default_url and tok = "Some ''eyJhbGciOiJIUzI1NiIsInR5cCI6IkpXVCJ9...''"
      and ar = True and mx = 5
      and w = "world0 [Accept [Frame 0 auth_success_text]] []"
      and c = "token_client\<lparr>websocket := Some 0\<rparr>" and h = 0 and d = 0
      and wa = "world0 [] [Frame 0 auth_success_text]" and s = auth_success_text
      and rest = "[]"
      and j = "JObj [(''type'', JStr ''auth_success''), (''payload'', JObj [])]"]
    authenticated_only_after_auth_success [where L = loads0 and xs = "[]"
      and c = "token_client\<lparr>websocket := Some 0, authenticated := True\<rparr>"
      and h = 0 and d = 0
      and wa = "world0 [] [Frame 0 auth_error_text]" and s = auth_error_text
      and rest = "[]"
      and j = "JObj [(''type'', JStr ''auth_error''),
                     (''payload'', JObj [(''message'', JStr ''bad token'')])]"]
  by (simp add: run_defs token_client_def new_client_def world0_def loads0_auth_success loads0_auth_error
        split: prod.splits)

end
